theory Spec2Isabelle
  imports Main "HOL-Library.Word"
begin

section \<open>Values of the run\<close>

text \<open>
  The repository holds three revisions of one Event Grid handler:
  \<^verbatim>\<open>src/functions/ProcessImage.ts\<close>, and two files whose paths are not known,
  called here \<^verbatim>\<open>part_000\<close> and \<^verbatim>\<open>part_001\<close>. Each is embedded below as it is
  written. The helper \<^verbatim>\<open>streamToBuffer\<close> is the same text in all three.

  A buffer is a list of bytes. An error value is what a \<^verbatim>\<open>throw\<close> or a rejected
  promise carries: \<^verbatim>\<open>new Error(msg)\<close>, a \<^verbatim>\<open>TypeError\<close> of the runtime, or an error
  raised inside a library (its printed form).
\<close>

type_synonym byte = "8 word"
type_synonym buffer = "byte list"

datatype error = Error string | TypeError string | LibraryError string

text \<open>What an awaited promise does: it resolves, it rejects, or it never settles.\<close>

datatype 'a promise = Resolved 'a | Rejected error | Pending

text \<open>A synchronous call returns or throws.\<close>

fun returned :: "error + 'a \<Rightarrow> 'a promise" where
  "returned (Inl e) = Rejected e"
| "returned (Inr x) = Resolved x"

text \<open>
  \<^verbatim>\<open>String(error)\<close>, as the template literal of the catch block prints it: the
  name of the error, and after a colon its message when it has one.
\<close>

fun String_of_error :: "error \<Rightarrow> string" where
  "String_of_error (Error m) = (if m = [] then ''Error'' else ''Error: '' @ m)"
| "String_of_error (TypeError m) = (if m = [] then ''TypeError'' else ''TypeError: '' @ m)"
| "String_of_error (LibraryError m) = m"

text \<open>A possibly undefined string inside a template literal; \<open>None\<close> is undefined.\<close>

fun template :: "string option \<Rightarrow> string" where
  "template None = ''undefined''"
| "template (Some s) = s"

section \<open>The readable stream and \<^verbatim>\<open>streamToBuffer\<close>\<close>

text \<open>
  A readable stream is the sequence of events it emits after the listeners are
  attached. A \<^verbatim>\<open>data\<close> event carries a \<^verbatim>\<open>Buffer\<close> or some other value, which the
  listener converts with \<^verbatim>\<open>Buffer.from\<close>; that conversion is a parameter.
\<close>

datatype 'd chunk = IsBuffer buffer | NotBuffer 'd

datatype 'd stream_event = OnData "'d chunk" | OnEnd | OnError error

text \<open>
  The three listeners at work on the emitted events. \<^verbatim>\<open>chunks.push(...)\<close> appends;
  \<^verbatim>\<open>end\<close> resolves with \<^verbatim>\<open>Buffer.concat(chunks)\<close>; \<^verbatim>\<open>error\<close> rejects. A promise
  settles once, so the events after the first \<^verbatim>\<open>end\<close> or \<^verbatim>\<open>error\<close> do not change
  it; a stream that emits neither leaves the promise pending.
\<close>

fun listeners :: "('d \<Rightarrow> buffer) \<Rightarrow> 'd stream_event list \<Rightarrow> buffer list \<Rightarrow> buffer promise" where
  "listeners bufferFrom [] chunks = Pending"
| "listeners bufferFrom (OnData d # es) chunks =
     listeners bufferFrom es
       (chunks @ [case d of IsBuffer b \<Rightarrow> b | NotBuffer x \<Rightarrow> bufferFrom x])"
| "listeners bufferFrom (OnEnd # es) chunks = Resolved (concat chunks)"
| "listeners bufferFrom (OnError e # es) chunks = Rejected e"

text \<open>
  \<^verbatim>\<open>streamToBuffer(readableStream)\<close>. \<open>None\<close> is the absent stream: \<^verbatim>\<open>null\<close> by the
  signature, \<^verbatim>\<open>undefined\<close> when it is the \<^verbatim>\<open>readableStreamBody\<close> of a response
  without a body. On it the two \<^verbatim>\<open>readableStream?.on\<close> calls are skipped and the
  third, \<^verbatim>\<open>readableStream.on('error', reject)\<close>, has no \<^verbatim>\<open>?.\<close>: it throws a
  TypeError inside the promise executor, which rejects the promise. The message of
  that TypeError names the value; it is written for \<^verbatim>\<open>undefined\<close>, and reads
  \<^verbatim>\<open>null\<close> in its place for a null stream.
\<close>

definition null_on :: error where
  "null_on = TypeError ''Cannot read properties of undefined (reading 'on')''"

definition streamToBuffer :: "('d \<Rightarrow> buffer) \<Rightarrow> 'd stream_event list option \<Rightarrow> buffer promise" where
  "streamToBuffer bufferFrom readableStream =
     (case readableStream of
        None \<Rightarrow> Rejected null_on
      | Some events \<Rightarrow> listeners bufferFrom events [])"

text \<open>The bytes a chunk contributes.\<close>

fun chunk_bytes :: "('d \<Rightarrow> buffer) \<Rightarrow> 'd chunk \<Rightarrow> buffer" where
  "chunk_bytes bufferFrom (IsBuffer b) = b"
| "chunk_bytes bufferFrom (NotBuffer x) = bufferFrom x"

section \<open>Identity extraction\<close>

text \<open>
  \<^verbatim>\<open>blobUrl.split('/')\<close>: the pieces between the slashes, never an empty array
  (\<^verbatim>\<open>''.split('/')\<close> is \<^verbatim>\<open>['']\<close>). \<^verbatim>\<open>pop()\<close> gives the last piece, and undefined on
  an empty array.
\<close>

fun split_slash :: "string \<Rightarrow> string list" where
  "split_slash [] = [[]]"
| "split_slash (c # cs) =
     (if c = CHR ''/'' then [] # split_slash cs
      else (case split_slash cs of
              [] \<Rightarrow> [[c]]
            | p # ps \<Rightarrow> (c # p) # ps))"

fun pop :: "'a list \<Rightarrow> 'a option" where
  "pop [] = None"
| "pop (x # xs) = Some (last (x # xs))"

text \<open>The final path segment, in the words of the specification: what follows the last slash.\<close>

definition final_segment :: "string \<Rightarrow> string" where
  "final_segment s = rev (takeWhile (\<lambda>c. c \<noteq> CHR ''/'') (rev s))"

section \<open>The notification, the configuration and the collaborators\<close>

text \<open>
  The notification: \<^verbatim>\<open>event.data\<close> may be absent, and so may its \<^verbatim>\<open>url\<close> property,
  which the code casts to a string. \<open>None\<close> is undefined. A \<^verbatim>\<open>url\<close> that is null
  takes the same path through the handler as an undefined one; only the one log line
  that prints it reads \<^verbatim>\<open>null\<close>.
\<close>

record event_data =
  url :: "string option"

record EventGridEvent =
  data :: "event_data option"

text \<open>\<^verbatim>\<open>event.data?.url\<close>: undefined when \<^verbatim>\<open>data\<close> or \<^verbatim>\<open>url\<close> is absent.\<close>

definition optional_url :: "EventGridEvent \<Rightarrow> string option" where
  "optional_url event = (case data event of None \<Rightarrow> None | Some d \<Rightarrow> url d)"

text \<open>What \<^verbatim>\<open>!v\<close> tests on a possibly undefined string: undefined and the empty string.\<close>

fun falsy :: "string option \<Rightarrow> bool" where
  "falsy None = True"
| "falsy (Some s) = (s = [])"

text \<open>
  Everything outside the handler is a parameter of the run: the three environment
  variables, and what each call into the storage SDK and into Jimp answers. A
  synchronous call returns or throws; an awaited one resolves, rejects or stays
  pending. A container client is known by the name it was made with, a block blob
  client by container and blob name. \<^verbatim>\<open>download\<close> resolves to the response's
  \<^verbatim>\<open>readableStreamBody\<close>, which may be absent. \<^verbatim>\<open>getBuffer_callback\<close> is
  \<^verbatim>\<open>image.getBuffer(mime, cb)\<close>: resolved with the pair handed to the callback,
  rejected when the call itself throws, pending when the callback is never run.
\<close>

record ('d, 'img) world =
  AzureWebJobsStorage :: "string option"
  BLOB_CONTAINER_NAME :: "string option"
  PROCESSED_BLOB_CONTAINER_NAME :: "string option"
  fromConnectionString :: "string option \<Rightarrow> error + unit"
  getContainerClient :: "string option \<Rightarrow> error + unit"
  getBlockBlobClient :: "string option \<Rightarrow> string \<Rightarrow> error + unit"
  download :: "string option \<Rightarrow> string \<Rightarrow> 'd stream_event list option promise"
  bufferFrom :: "'d \<Rightarrow> buffer"
  Jimp_read :: "buffer \<Rightarrow> 'img promise"
  greyscale :: "'img \<Rightarrow> error + 'img"
  getBuffer_callback :: "'img \<Rightarrow> string \<Rightarrow> (error option \<times> buffer) promise"
  getBuffer :: "'img \<Rightarrow> string \<Rightarrow> buffer promise"
  createIfNotExists :: "string option \<Rightarrow> bool promise"
  upload :: "string option \<Rightarrow> string \<Rightarrow> buffer \<Rightarrow> nat \<Rightarrow> unit promise"

text \<open>What a run does to the outside, in order: log lines and calls of collaborators.\<close>

datatype 'img effect =
    ContextLog string
  | ContextLogEvent EventGridEvent
  | ContextLogData "event_data option"
  | ContextLogClient "string option" string
  | ContextError string
  | FromConnectionString "string option"
  | GetContainerClient "string option"
  | GetBlockBlobClient "string option" string
  | Download "string option" string
  | JimpRead buffer
  | Greyscale 'img
  | GetBuffer 'img string
  | CreateIfNotExists "string option"
  | Upload "string option" string buffer nat

text \<open>The calls that go to the storage account over the network.\<close>

fun is_network :: "'img effect \<Rightarrow> bool" where
  "is_network (Download c b) = True"
| "is_network (CreateIfNotExists c) = True"
| "is_network (Upload c b bs n) = True"
| "is_network e = False"

text \<open>Every call on the storage SDK, the making of clients included.\<close>

fun is_storage :: "'img effect \<Rightarrow> bool" where
  "is_storage (FromConnectionString s) = True"
| "is_storage (GetContainerClient c) = True"
| "is_storage (GetBlockBlobClient c b) = True"
| "is_storage e = is_network e"

section \<open>Sequencing\<close>

text \<open>
  A piece of the handler takes the effects so far and gives its outcome with the
  effects extended. \<^verbatim>\<open>await\<close> runs the rest only on a resolved value; a
  rejection or a throw skips the rest, and a pending promise stops the run there.
\<close>

type_synonym ('img, 'a) step = "'img effect list \<Rightarrow> 'a promise \<times> 'img effect list"

definition throw :: "error \<Rightarrow> ('img, 'a) step" where
  "throw e tr = (Rejected e, tr)"

definition settle :: "'a promise \<Rightarrow> ('img, 'a) step" where
  "settle p tr = (p, tr)"

definition invoke :: "'img effect \<Rightarrow> 'a promise \<Rightarrow> ('img, 'a) step" where
  "invoke c r tr = (r, tr @ [c])"

definition await :: "('img, 'a) step \<Rightarrow> ('a \<Rightarrow> ('img, 'b) step) \<Rightarrow> ('img, 'b) step" where
  "await m k tr =
     (case m tr of
        (Resolved x, tr') \<Rightarrow> k x tr'
      | (Rejected e, tr') \<Rightarrow> (Rejected e, tr')
      | (Pending, tr') \<Rightarrow> (Pending, tr'))"

definition seq :: "('img, unit) step \<Rightarrow> ('img, 'b) step \<Rightarrow> ('img, 'b) step" where
  "seq m k = await m (\<lambda>_. k)"

definition try_catch :: "('img, 'a) step \<Rightarrow> (error \<Rightarrow> ('img, 'a) step) \<Rightarrow> ('img, 'a) step" where
  "try_catch m h tr =
     (case m tr of
        (Rejected e, tr') \<Rightarrow> h e tr'
      | (Resolved x, tr') \<Rightarrow> (Resolved x, tr')
      | (Pending, tr') \<Rightarrow> (Pending, tr'))"

definition context_log :: "string \<Rightarrow> ('img, unit) step" where
  "context_log msg = invoke (ContextLog msg) (Resolved ())"

definition context_error :: "string \<Rightarrow> ('img, unit) step" where
  "context_error msg = invoke (ContextError msg) (Resolved ())"

text \<open>\<^verbatim>\<open>if (!v) { throw e }\<close>, then the rest with \<^verbatim>\<open>v\<close> a non-empty string.\<close>

definition throw_if_falsy :: "string option \<Rightarrow> error \<Rightarrow> (string \<Rightarrow> ('img, 'a) step) \<Rightarrow> ('img, 'a) step" where
  "throw_if_falsy v e k =
     (case v of
        None \<Rightarrow> throw e
      | Some s \<Rightarrow> if s = [] then throw e else k s)"

section \<open>The handler of \<^verbatim>\<open>src/functions/ProcessImage.ts\<close>\<close>

text \<open>
  \<^verbatim>\<open>getBufferAsync(image, mimeType)\<close>: the promise around the callback form of
  \<^verbatim>\<open>getBuffer\<close>; a truthy \<^verbatim>\<open>err\<close> rejects, otherwise the buffer resolves.
\<close>

definition getBufferAsync :: "('d, 'img) world \<Rightarrow> 'img \<Rightarrow> string \<Rightarrow> ('img, buffer) step" where
  "getBufferAsync w img mimeType =
     await (invoke (GetBuffer img mimeType) (getBuffer_callback w img mimeType))
       (\<lambda>(err, buf). case err of Some e \<Rightarrow> throw e | None \<Rightarrow> settle (Resolved buf))"

text \<open>The body of the \<^verbatim>\<open>try\<close> block, statement by statement.\<close>

definition ProcessImage_try :: "EventGridEvent \<Rightarrow> ('d, 'img) world \<Rightarrow> ('img, unit) step" where
  "ProcessImage_try event w =
     seq (invoke (ContextLogData (data event)) (Resolved ()))
    (let blobUrl = optional_url event in
     seq (context_log (''Blob URL: '' @ template blobUrl))
    (throw_if_falsy blobUrl (Error ''Missing blob URL'') (\<lambda>blobUrl.
     let popped = pop (split_slash blobUrl) in
     seq (context_log (''Blob name: '' @ template popped))
    (throw_if_falsy popped (Error ''Missing blob name'') (\<lambda>blobName.
     await (invoke (FromConnectionString (AzureWebJobsStorage w))
              (returned (fromConnectionString w (AzureWebJobsStorage w)))) (\<lambda>_.
     await (invoke (GetContainerClient (BLOB_CONTAINER_NAME w))
              (returned (getContainerClient w (BLOB_CONTAINER_NAME w)))) (\<lambda>_.
     seq (context_log ''Container client created'')
    (await (invoke (GetBlockBlobClient (BLOB_CONTAINER_NAME w) blobName)
              (returned (getBlockBlobClient w (BLOB_CONTAINER_NAME w) blobName))) (\<lambda>_.
     await (invoke (Download (BLOB_CONTAINER_NAME w) blobName)
              (download w (BLOB_CONTAINER_NAME w) blobName)) (\<lambda>readableStreamBody.
     seq (context_log ''Downloaded blob'')
    (await (settle (streamToBuffer (bufferFrom w) readableStreamBody)) (\<lambda>imageBuffer.
     seq (context_log ''Converted blob to buffer'')
    (await (invoke (JimpRead imageBuffer) (Jimp_read w imageBuffer)) (\<lambda>img.
     seq (context_log ''Loaded image'')
    (await (invoke (Greyscale img) (returned (greyscale w img))) (\<lambda>img.
     seq (context_log ''Converted to greyscale'')
    (await (getBufferAsync w img ''image/png'') (\<lambda>processedImageBuffer.
     seq (context_log ''Processed image buffer ready'')
    (let processedBlobName = ''processed-'' @ blobName in
     await (invoke (GetContainerClient (PROCESSED_BLOB_CONTAINER_NAME w))
              (returned (getContainerClient w (PROCESSED_BLOB_CONTAINER_NAME w)))) (\<lambda>_.
     await (invoke (GetBlockBlobClient (PROCESSED_BLOB_CONTAINER_NAME w) processedBlobName)
              (returned (getBlockBlobClient w (PROCESSED_BLOB_CONTAINER_NAME w) processedBlobName))) (\<lambda>_.
     seq (invoke (Upload (PROCESSED_BLOB_CONTAINER_NAME w) processedBlobName
                    processedImageBuffer (length processedImageBuffer))
            (upload w (PROCESSED_BLOB_CONTAINER_NAME w) processedBlobName
                    processedImageBuffer (length processedImageBuffer)))
         (context_log (''Processed image uploaded to: '' @ processedBlobName)))))))))))))))))))))))"

text \<open>
  The handler: one log line before the \<^verbatim>\<open>try\<close>, then the body; the \<^verbatim>\<open>catch\<close>
  block logs the error with \<^verbatim>\<open>context.error\<close> and falls through to the end of the
  function.
\<close>

definition ProcessImage :: "EventGridEvent \<Rightarrow> ('d, 'img) world \<Rightarrow> ('img, unit) step" where
  "ProcessImage event w =
     seq (invoke (ContextLogEvent event) (Resolved ()))
       (try_catch (ProcessImage_try event w)
          (\<lambda>error. context_error (''Failed to process image: '' @ String_of_error error)))"

section \<open>The handler of \<^verbatim>\<open>part_000\<close>\<close>

text \<open>
  This revision checks \<^verbatim>\<open>BLOB_CONTAINER_NAME\<close> after the service client is made,
  awaits \<^verbatim>\<open>image.getBuffer('image/jpeg')\<close> directly, and calls
  \<^verbatim>\<open>createIfNotExists\<close> on the destination container before the upload. The
  container name in the log line after a creation is taken to be the name the client
  was made with.
\<close>

definition ProcessImage_part_000_try :: "EventGridEvent \<Rightarrow> ('d, 'img) world \<Rightarrow> ('img, unit) step" where
  "ProcessImage_part_000_try event w =
    (let blobUrl = optional_url event in
     throw_if_falsy blobUrl (Error ''Missing blob URL'') (\<lambda>blobUrl.
     let popped = pop (split_slash blobUrl) in
     seq (context_log (''Blob name: '' @ template popped))
    (throw_if_falsy popped (Error ''Missing blob name'') (\<lambda>blobName.
     await (invoke (FromConnectionString (AzureWebJobsStorage w))
              (returned (fromConnectionString w (AzureWebJobsStorage w)))) (\<lambda>_.
     let containerName = BLOB_CONTAINER_NAME w in
     throw_if_falsy containerName
        (Error ''BLOB_CONTAINER_NAME environment variable is not set.'') (\<lambda>containerName.
     await (invoke (GetContainerClient (BLOB_CONTAINER_NAME w))
              (returned (getContainerClient w (BLOB_CONTAINER_NAME w)))) (\<lambda>_.
     await (invoke (GetBlockBlobClient (BLOB_CONTAINER_NAME w) blobName)
              (returned (getBlockBlobClient w (BLOB_CONTAINER_NAME w) blobName))) (\<lambda>_.
     await (invoke (Download (BLOB_CONTAINER_NAME w) blobName)
              (download w (BLOB_CONTAINER_NAME w) blobName)) (\<lambda>readableStreamBody.
     await (settle (streamToBuffer (bufferFrom w) readableStreamBody)) (\<lambda>imageBuffer.
     await (invoke (JimpRead imageBuffer) (Jimp_read w imageBuffer)) (\<lambda>img.
     seq (context_log ''Loaded image'')
    (await (invoke (Greyscale img) (returned (greyscale w img))) (\<lambda>img.
     seq (context_log ''Converted to greyscale'')
    (await (invoke (GetBuffer img ''image/jpeg'') (getBuffer w img ''image/jpeg'')) (\<lambda>processedImageBuffer.
     seq (context_log ''Processed image buffer ready'')
    (let processedBlobName = ''processed-'' @ blobName in
     await (invoke (GetContainerClient (PROCESSED_BLOB_CONTAINER_NAME w))
              (returned (getContainerClient w (PROCESSED_BLOB_CONTAINER_NAME w)))) (\<lambda>_.
     await (invoke (CreateIfNotExists (PROCESSED_BLOB_CONTAINER_NAME w))
              (createIfNotExists w (PROCESSED_BLOB_CONTAINER_NAME w))) (\<lambda>succeeded.
     seq (if succeeded
          then context_log (''Created container: '' @ template (PROCESSED_BLOB_CONTAINER_NAME w))
          else settle (Resolved ()))
    (await (invoke (GetBlockBlobClient (PROCESSED_BLOB_CONTAINER_NAME w) processedBlobName)
              (returned (getBlockBlobClient w (PROCESSED_BLOB_CONTAINER_NAME w) processedBlobName))) (\<lambda>_.
     seq (invoke (Upload (PROCESSED_BLOB_CONTAINER_NAME w) processedBlobName
                    processedImageBuffer (length processedImageBuffer))
            (upload w (PROCESSED_BLOB_CONTAINER_NAME w) processedBlobName
                    processedImageBuffer (length processedImageBuffer)))
         (context_log (''Processed image uploaded to: '' @ processedBlobName))))))))))))))))))))))"

definition ProcessImage_part_000 :: "EventGridEvent \<Rightarrow> ('d, 'img) world \<Rightarrow> ('img, unit) step" where
  "ProcessImage_part_000 event w =
     seq (invoke (ContextLogEvent event) (Resolved ()))
       (try_catch (ProcessImage_part_000_try event w)
          (\<lambda>error. context_error (''Failed to process image: '' @ String_of_error error)))"

section \<open>The handler of \<^verbatim>\<open>part_001\<close>\<close>

text \<open>The same pipeline as \<^verbatim>\<open>part_000\<close>, with more log lines.\<close>

definition ProcessImage_part_001_try :: "EventGridEvent \<Rightarrow> ('d, 'img) world \<Rightarrow> ('img, unit) step" where
  "ProcessImage_part_001_try event w =
     seq (invoke (ContextLogData (data event)) (Resolved ()))
    (let blobUrl = optional_url event in
     seq (context_log (''Blob URL: '' @ template blobUrl))
    (throw_if_falsy blobUrl (Error ''Missing blob URL'') (\<lambda>blobUrl.
     let popped = pop (split_slash blobUrl) in
     seq (context_log (''Encoded Blob name: '' @ template popped))
    (throw_if_falsy popped (Error ''Missing blob name'') (\<lambda>blobName.
     await (invoke (FromConnectionString (AzureWebJobsStorage w))
              (returned (fromConnectionString w (AzureWebJobsStorage w)))) (\<lambda>_.
     let containerName = BLOB_CONTAINER_NAME w in
     seq (context_log (''Using container name: '' @ template containerName))
    (throw_if_falsy containerName
        (Error ''BLOB_CONTAINER_NAME environment variable is not set.'') (\<lambda>containerName.
     await (invoke (GetContainerClient (BLOB_CONTAINER_NAME w))
              (returned (getContainerClient w (BLOB_CONTAINER_NAME w)))) (\<lambda>_.
     seq (context_log ''Container client created'')
    (await (invoke (GetBlockBlobClient (BLOB_CONTAINER_NAME w) blobName)
              (returned (getBlockBlobClient w (BLOB_CONTAINER_NAME w) blobName))) (\<lambda>_.
     seq (invoke (ContextLogClient (BLOB_CONTAINER_NAME w) blobName) (Resolved ()))
    (await (invoke (Download (BLOB_CONTAINER_NAME w) blobName)
              (download w (BLOB_CONTAINER_NAME w) blobName)) (\<lambda>readableStreamBody.
     seq (context_log ''Downloaded blob'')
    (await (settle (streamToBuffer (bufferFrom w) readableStreamBody)) (\<lambda>imageBuffer.
     seq (context_log ''Converted blob to buffer'')
    (await (invoke (JimpRead imageBuffer) (Jimp_read w imageBuffer)) (\<lambda>img.
     seq (context_log ''Loaded image'')
    (await (invoke (Greyscale img) (returned (greyscale w img))) (\<lambda>img.
     seq (context_log ''Converted to greyscale'')
    (await (invoke (GetBuffer img ''image/jpeg'') (getBuffer w img ''image/jpeg'')) (\<lambda>processedImageBuffer.
     seq (context_log ''Processed image buffer ready'')
    (let processedBlobName = ''processed-'' @ blobName in
     await (invoke (GetContainerClient (PROCESSED_BLOB_CONTAINER_NAME w))
              (returned (getContainerClient w (PROCESSED_BLOB_CONTAINER_NAME w)))) (\<lambda>_.
     await (invoke (CreateIfNotExists (PROCESSED_BLOB_CONTAINER_NAME w))
              (createIfNotExists w (PROCESSED_BLOB_CONTAINER_NAME w))) (\<lambda>succeeded.
     seq (if succeeded
          then context_log (''Created container: '' @ template (PROCESSED_BLOB_CONTAINER_NAME w))
          else settle (Resolved ()))
    (await (invoke (GetBlockBlobClient (PROCESSED_BLOB_CONTAINER_NAME w) processedBlobName)
              (returned (getBlockBlobClient w (PROCESSED_BLOB_CONTAINER_NAME w) processedBlobName))) (\<lambda>_.
     seq (invoke (Upload (PROCESSED_BLOB_CONTAINER_NAME w) processedBlobName
                    processedImageBuffer (length processedImageBuffer))
            (upload w (PROCESSED_BLOB_CONTAINER_NAME w) processedBlobName
                    processedImageBuffer (length processedImageBuffer)))
         (context_log (''Processed image uploaded to: '' @ processedBlobName))))))))))))))))))))))))))))"

definition ProcessImage_part_001 :: "EventGridEvent \<Rightarrow> ('d, 'img) world \<Rightarrow> ('img, unit) step" where
  "ProcessImage_part_001 event w =
     seq (invoke (ContextLogEvent event) (Resolved ()))
       (try_catch (ProcessImage_part_001_try event w)
          (\<lambda>error. context_error (''Failed to process image: '' @ String_of_error error)))"

section \<open>Properties of a run's effects\<close>



text \<open>
  A run has failed when its catch block ran: the last thing it did was the
  \<^verbatim>\<open>context.error\<close> line.
\<close>

fun is_context_error :: "'img effect \<Rightarrow> bool" where
  "is_context_error (ContextError m) = True"
| "is_context_error e = False"

definition run_failed :: "'img effect list \<Rightarrow> bool" where
  "run_failed tr = (tr \<noteq> [] \<and> is_context_error (last tr))"



section \<open>What the collaborators answer\<close>

text \<open>
  The answers a run needs to get from one stage to the next, as conditions on the
  world. The source is fetched: the service client and the two source clients are
  made and the download resolves to \<open>body\<close>.
\<close>

definition source_fetched :: "('d, 'img) world \<Rightarrow> string \<Rightarrow> 'd stream_event list option \<Rightarrow> bool" where
  "source_fetched w blobName body =
     (fromConnectionString w (AzureWebJobsStorage w) = Inr ()
      \<and> getContainerClient w (BLOB_CONTAINER_NAME w) = Inr ()
      \<and> getBlockBlobClient w (BLOB_CONTAINER_NAME w) blobName = Inr ()
      \<and> download w (BLOB_CONTAINER_NAME w) blobName = Resolved body)"

text \<open>
  The image is prepared: the body is collected into \<open>buf\<close>, Jimp reads it as \<open>img\<close>
  and greyscale returns, leaving \<open>grey\<close>.
\<close>

definition image_prepared ::
  "('d, 'img) world \<Rightarrow> 'd stream_event list option \<Rightarrow> buffer \<Rightarrow> 'img \<Rightarrow> 'img \<Rightarrow> bool" where
  "image_prepared w body buf img grey =
     (streamToBuffer (bufferFrom w) body = Resolved buf
      \<and> Jimp_read w buf = Resolved img
      \<and> greyscale w img = Inr grey)"

text \<open>
  The destination is ready: its container client is made, \<^verbatim>\<open>createIfNotExists\<close>
  resolves, and the block blob client for \<open>name\<close> is made.
\<close>

definition destination_ready :: "('d, 'img) world \<Rightarrow> string \<Rightarrow> bool \<Rightarrow> bool" where
  "destination_ready w name succeeded =
     (getContainerClient w (PROCESSED_BLOB_CONTAINER_NAME w) = Inr ()
      \<and> createIfNotExists w (PROCESSED_BLOB_CONTAINER_NAME w) = Resolved succeeded
      \<and> getBlockBlobClient w (PROCESSED_BLOB_CONTAINER_NAME w) name = Inr ())"

section \<open>Sample inputs\<close>

text \<open>
  A world that answers as the libraries the files import do. The storage library
  throws on an unset or empty connection string and on an empty container name; a
  container name that is undefined makes a client, and the download then finds no
  such container. The container \<^verbatim>\<open>in\<close> holds every blob asked for, and it arrives in
  two chunks. Jimp hands out image 0 and greyscale turns image \<open>i\<close> into image
  \<open>i + 1\<close>. \<^verbatim>\<open>getBuffer\<close> returns a promise and runs no callback; its two bytes
  tell the requested format apart. The destination container is created on request.
\<close>

definition sample_world :: "(unit, nat) world" where
  "sample_world =
     \<lparr> AzureWebJobsStorage = Some ''UseDevelopmentStorage=true'',
       BLOB_CONTAINER_NAME = Some ''in'',
       PROCESSED_BLOB_CONTAINER_NAME = Some ''out'',
       fromConnectionString =
         (\<lambda>s. if falsy s then Inl (LibraryError ''Error: invalid connection string'') else Inr ()),
       getContainerClient =
         (\<lambda>c. if c = Some [] then Inl (LibraryError ''Error: invalid container name'') else Inr ()),
       getBlockBlobClient = (\<lambda>c b. Inr ()),
       download =
         (\<lambda>c b. if c = Some ''in''
                then Resolved (Some [OnData (IsBuffer [1, 2]), OnData (IsBuffer [3]), OnEnd])
                else Rejected (LibraryError ''RestError: ContainerNotFound'')),
       bufferFrom = (\<lambda>d. []),
       Jimp_read = (\<lambda>b. Resolved 0),
       greyscale = (\<lambda>i. Inr (Suc i)),
       getBuffer_callback = (\<lambda>i m. Pending),
       getBuffer = (\<lambda>i m. Resolved (if m = ''image/png'' then [137, 80] else [255, 216])),
       createIfNotExists = (\<lambda>c. Resolved True),
       upload = (\<lambda>c b bs n. Resolved ()) \<rparr>"

definition sample_event :: EventGridEvent where
  "sample_event =
     \<lparr> data = Some \<lparr> url = Some ''https://acct.blob.core.windows.net/in/cat.png'' \<rparr> \<rparr>"

text \<open>The same world with the source container name unset.\<close>

definition unnamed_container_world :: "(unit, nat) world" where
  "unnamed_container_world = sample_world \<lparr> BLOB_CONTAINER_NAME := None \<rparr>"

text \<open>The same world with a download response that carries no body.\<close>

definition no_body_world :: "(unit, nat) world" where
  "no_body_world = sample_world \<lparr> download := (\<lambda>c b. Resolved None) \<rparr>"

text \<open>The same world with a blob that is not there.\<close>

definition not_found_world :: "(unit, nat) world" where
  "not_found_world = sample_world \<lparr> download := (\<lambda>c b. Rejected (LibraryError ''RestError: BlobNotFound'')) \<rparr>"

text \<open>
  A notification with no data, one whose locator has no slash, and one whose blob
  lies under a folder and has capitals in its name.
\<close>

definition empty_event :: EventGridEvent where
  "empty_event = \<lparr> data = None \<rparr>"

definition bare_event :: EventGridEvent where
  "bare_event = \<lparr> data = Some \<lparr> url = Some ''cat.png'' \<rparr> \<rparr>"

definition nested_event :: EventGridEvent where
  "nested_event =
     \<lparr> data = Some \<lparr> url = Some ''https://acct.blob.core.windows.net/in/pets/Dog.JPG'' \<rparr> \<rparr>"

section \<open>Rules for running a handler\<close>

lemma await_invoke:
  "await (invoke c r) k tr =
     (case r of
        Resolved x \<Rightarrow> k x (tr @ [c])
      | Rejected e \<Rightarrow> (Rejected e, tr @ [c])
      | Pending \<Rightarrow> (Pending, tr @ [c]))"
  by (simp add: await_def invoke_def split: promise.splits)

lemma seq_invoke:
  "seq (invoke c r) k tr =
     (case r of
        Resolved x \<Rightarrow> k (tr @ [c])
      | Rejected e \<Rightarrow> (Rejected e, tr @ [c])
      | Pending \<Rightarrow> (Pending, tr @ [c]))"
  by (simp add: seq_def await_invoke)

lemma seq_context_log: "seq (context_log m) k tr = k (tr @ [ContextLog m])"
  by (simp add: context_log_def seq_invoke)

lemma await_settle:
  "await (settle p) k tr =
     (case p of
        Resolved x \<Rightarrow> k x tr
      | Rejected e \<Rightarrow> (Rejected e, tr)
      | Pending \<Rightarrow> (Pending, tr))"
  by (simp add: await_def settle_def split: promise.splits)

lemma seq_settle: "seq (settle (Resolved ())) k tr = k tr"
  by (simp add: seq_def await_settle)

lemma throw_if_falsy_run:
  "throw_if_falsy v e k tr =
     (case v of
        None \<Rightarrow> (Rejected e, tr)
      | Some s \<Rightarrow> if s = [] then (Rejected e, tr) else k s tr)"
  by (simp add: throw_if_falsy_def throw_def split: option.splits)

lemma context_log_run: "context_log m tr = (Resolved (), tr @ [ContextLog m])"
  by (simp add: context_log_def invoke_def)

lemma context_error_run: "context_error m tr = (Resolved (), tr @ [ContextError m])"
  by (simp add: context_error_def invoke_def)

lemma getBufferAsync_run:
  "await (getBufferAsync w img m) k tr =
     (case getBuffer_callback w img m of
        Resolved (err, buf) \<Rightarrow>
          (case err of
             Some e \<Rightarrow> (Rejected e, tr @ [GetBuffer img m])
           | None \<Rightarrow> k buf (tr @ [GetBuffer img m]))
      | Rejected e \<Rightarrow> (Rejected e, tr @ [GetBuffer img m])
      | Pending \<Rightarrow> (Pending, tr @ [GetBuffer img m]))"
  by (simp add: getBufferAsync_def await_def invoke_def throw_def settle_def
           split: promise.splits option.splits prod.splits)

lemma returned_not_pending: "returned r \<noteq> Pending"
  by (cases r) simp_all

lemma returned_eq_Resolved: "(returned r = Resolved x) = (r = Inr x)"
  by (cases r) simp_all

lemma returned_eq_Rejected: "(returned r = Rejected e) = (r = Inl e)"
  by (cases r) simp_all

lemmas step_simps =
  returned_not_pending returned_eq_Resolved returned_eq_Rejected
  await_invoke seq_invoke seq_context_log await_settle seq_settle
  throw_if_falsy_run context_log_run context_error_run getBufferAsync_run invoke_def

lemmas handler_defs =
  ProcessImage_def ProcessImage_try_def
  ProcessImage_part_000_def ProcessImage_part_000_try_def
  ProcessImage_part_001_def ProcessImage_part_001_try_def
  try_catch_def Let_def

lemmas sample_defs =
  sample_world_def sample_event_def unnamed_container_world_def no_body_world_def
  not_found_world_def empty_event_def bare_event_def nested_event_def optional_url_def
  streamToBuffer_def

section \<open>The stream collector\<close>

lemma listeners_data_end:
  "listeners bf (map OnData cs @ OnEnd # rest) acc
     = Resolved (concat acc @ concat (map (chunk_bytes bf) cs))"
proof (induction cs arbitrary: acc)
  case Nil
  show ?case by simp
next
  case (Cons c cs)
  show ?case by (cases c) (simp_all add: Cons.IH)
qed

text \<open>
  Claim C8. When the byte source delivers a sequence of chunks and then signals the
  end of the stream, \<open>streamToBuffer\<close> resolves with one buffer: the bytes of the
  chunks joined in the order of arrival, none moved and none dropped. What the
  source emits after the end does not matter.
\<close>

theorem streamToBuffer_concatenates_in_order:
  "streamToBuffer conv (Some (map OnData chunks @ OnEnd # later))
     = Resolved (concat (map (chunk_bytes conv) chunks))"
  by (simp add: streamToBuffer_def listeners_data_end)

lemma listeners_data_error:
  "listeners bf (map OnData cs @ OnError e # rest) acc = Rejected e"
  by (induction cs arbitrary: acc) simp_all

lemma listeners_data_only:
  "listeners bf (map OnData cs) acc = Pending"
  by (induction cs arbitrary: acc) simp_all

text \<open>
  Claim C2, at the absent byte source. \<open>streamToBuffer\<close> on a null stream rejects
  with the TypeError of \<^verbatim>\<open>readableStream.on('error', reject)\<close>; it does not resolve
  with an empty buffer. In a run whose download response has no body the catch block
  logs that TypeError, and \<^verbatim>\<open>Jimp.read\<close> is never called.
\<close>

theorem streamToBuffer_null_rejects:
  "streamToBuffer conv None = Rejected null_on
   \<and> ProcessImage sample_event no_body_world [] =
       (Resolved (),
        [ContextLogEvent sample_event,
         ContextLogData (data sample_event),
         ContextLog ''Blob URL: https://acct.blob.core.windows.net/in/cat.png'',
         ContextLog ''Blob name: cat.png'',
         FromConnectionString (Some ''UseDevelopmentStorage=true''),
         GetContainerClient (Some ''in''),
         ContextLog ''Container client created'',
         GetBlockBlobClient (Some ''in'') ''cat.png'',
         Download (Some ''in'') ''cat.png'',
         ContextLog ''Downloaded blob'',
         ContextError
           ''Failed to process image: TypeError: Cannot read properties of undefined (reading 'on')''])"
  by (simp add: handler_defs step_simps sample_defs null_on_def)

section \<open>Identity extraction\<close>

lemma split_slash_nonempty: "split_slash s \<noteq> []"
  by (induction s) (auto split: list.splits)

lemma split_slash_no_slash: "CHR ''/'' \<notin> set s \<Longrightarrow> split_slash s = [s]"
  by (induction s) auto

lemma split_slash_slash: "CHR ''/'' \<in> set s \<Longrightarrow> tl (split_slash s) \<noteq> []"
proof (induction s)
  case Nil
  then show ?case by simp
next
  case (Cons c cs)
  show ?case
  proof (cases "c = CHR ''/''")
    case True
    then show ?thesis by (simp add: split_slash_nonempty)
  next
    case False
    with Cons show ?thesis by (auto split: list.splits)
  qed
qed

lemma final_segment_Cons:
  "final_segment (c # cs) =
     (if CHR ''/'' \<in> set cs then final_segment cs
      else if c = CHR ''/'' then cs else c # cs)"
proof (cases "CHR ''/'' \<in> set cs")
  case True
  then have "takeWhile (\<lambda>c. c \<noteq> CHR ''/'') (rev cs @ [c]) = takeWhile (\<lambda>c. c \<noteq> CHR ''/'') (rev cs)"
    by (intro takeWhile_append1[of "CHR ''/''"]) auto
  with True show ?thesis by (simp add: final_segment_def)
next
  case False
  then have "takeWhile (\<lambda>c. c \<noteq> CHR ''/'') (rev cs @ [c]) = rev cs @ takeWhile (\<lambda>c. c \<noteq> CHR ''/'') [c]"
    by (intro takeWhile_append2) auto
  with False show ?thesis by (simp add: final_segment_def)
qed

lemma last_split_slash: "last (split_slash s) = final_segment s"
proof (induction s)
  case Nil
  show ?case by (simp add: final_segment_def)
next
  case (Cons c cs)
  show ?case
  proof (cases "CHR ''/'' \<in> set cs")
    case False
    then show ?thesis
      by (simp add: final_segment_Cons split_slash_no_slash)
  next
    case True
    obtain p ps where ps: "split_slash cs = p # ps"
      using split_slash_nonempty[of cs] by (cases "split_slash cs") auto
    have "ps \<noteq> []"
      using split_slash_slash[OF True] ps by simp
    with ps Cons.IH True show ?thesis
      by (simp add: final_segment_Cons)
  qed
qed

lemma pop_split_slash: "pop (split_slash u) = Some (final_segment u)"
  using split_slash_nonempty[of u] last_split_slash[of u]
  by (cases "split_slash u") auto

lemma final_segment_sample: "final_segment ''https://acct.blob.core.windows.net/in/cat.png'' = ''cat.png''"
  by (simp add: final_segment_def)

lemma upload_name_ts:
  "optional_url event = Some u \<Longrightarrow> pop (split_slash u) = Some s \<Longrightarrow>
   Upload c n b l \<in> set (snd (ProcessImage event w [])) \<Longrightarrow> n = ''processed-'' @ s"
  by (auto simp add: handler_defs step_simps
       split: promise.splits option.splits sum.splits if_splits prod.splits)

lemma upload_name_part_000:
  "optional_url event = Some u \<Longrightarrow> pop (split_slash u) = Some s \<Longrightarrow>
   Upload c n b l \<in> set (snd (ProcessImage_part_000 event w [])) \<Longrightarrow> n = ''processed-'' @ s"
  by (auto simp add: handler_defs step_simps
       split: promise.splits option.splits sum.splits if_splits prod.splits)

lemma upload_name_part_001:
  "optional_url event = Some u \<Longrightarrow> pop (split_slash u) = Some s \<Longrightarrow>
   Upload c n b l \<in> set (snd (ProcessImage_part_001 event w [])) \<Longrightarrow> n = ''processed-'' @ s"
  by (auto simp add: handler_defs step_simps
       split: promise.splits option.splits sum.splits if_splits prod.splits)

section \<open>Input errors\<close>

text \<open>
  Claim C4. When the notification carries no \<^verbatim>\<open>data.url\<close>, or an empty one, the
  run throws \<^verbatim>\<open>Missing blob URL\<close>, the catch block logs it and the handler
  returns. The effects of the run are log lines only: no storage client is made and
  nothing is fetched or published. This holds in all three revisions.
\<close>

theorem missing_url_fails_without_storage_call:
  assumes "falsy (optional_url event)"
  shows "ProcessImage event w [] =
           (Resolved (),
            [ContextLogEvent event, ContextLogData (data event),
             ContextLog (''Blob URL: '' @ template (optional_url event)),
             ContextError ''Failed to process image: Error: Missing blob URL''])
       \<and> ProcessImage_part_000 event w [] =
           (Resolved (),
            [ContextLogEvent event,
             ContextError ''Failed to process image: Error: Missing blob URL''])
       \<and> ProcessImage_part_001 event w [] =
           (Resolved (),
            [ContextLogEvent event, ContextLogData (data event),
             ContextLog (''Blob URL: '' @ template (optional_url event)),
             ContextError ''Failed to process image: Error: Missing blob URL''])
       \<and> filter is_storage (snd (ProcessImage event w [])) = []
       \<and> filter is_storage (snd (ProcessImage_part_000 event w [])) = []
       \<and> filter is_storage (snd (ProcessImage_part_001 event w [])) = []"
  using assms
  by (cases "optional_url event") (simp_all add: handler_defs step_simps)

text \<open>A notification without \<^verbatim>\<open>data\<close> is such an input.\<close>

theorem missing_url_witness:
  "falsy (optional_url empty_event)
   \<and> ProcessImage_part_000 empty_event sample_world [] =
       (Resolved (),
        [ContextLogEvent empty_event,
         ContextError ''Failed to process image: Error: Missing blob URL''])
   \<and> filter is_storage (snd (ProcessImage empty_event sample_world [])) = []"
  using missing_url_fails_without_storage_call [of empty_event sample_world]
  by (simp add: empty_event_def optional_url_def)

section \<open>The boundary of the pipeline\<close>

text \<open>
  Claim C6. The promise of \<open>ProcessImage\<close> is never rejected. Whenever the body of
  the \<^verbatim>\<open>try\<close> block throws or rejects with an error \<open>e\<close>, at whatever
  statement, the handler adds one \<^verbatim>\<open>context.error\<close> line that prints \<open>e\<close> and
  resolves. This holds in all three revisions.
\<close>

theorem ProcessImage_catches_every_error:
  "fst (ProcessImage event w []) \<noteq> Rejected e
   \<and> fst (ProcessImage_part_000 event w []) \<noteq> Rejected e
   \<and> fst (ProcessImage_part_001 event w []) \<noteq> Rejected e
   \<and> (fst (ProcessImage_try event w [ContextLogEvent event]) = Rejected e \<longrightarrow>
        ProcessImage event w [] =
          (Resolved (),
           snd (ProcessImage_try event w [ContextLogEvent event])
             @ [ContextError (''Failed to process image: '' @ String_of_error e)]))
   \<and> (fst (ProcessImage_part_000_try event w [ContextLogEvent event]) = Rejected e \<longrightarrow>
        ProcessImage_part_000 event w [] =
          (Resolved (),
           snd (ProcessImage_part_000_try event w [ContextLogEvent event])
             @ [ContextError (''Failed to process image: '' @ String_of_error e)]))
   \<and> (fst (ProcessImage_part_001_try event w [ContextLogEvent event]) = Rejected e \<longrightarrow>
        ProcessImage_part_001 event w [] =
          (Resolved (),
           snd (ProcessImage_part_001_try event w [ContextLogEvent event])
             @ [ContextError (''Failed to process image: '' @ String_of_error e)]))"
  by (simp add: ProcessImage_def ProcessImage_part_000_def ProcessImage_part_001_def
        try_catch_def step_simps split: prod.splits promise.splits)

text \<open>A blob that is not there: the download rejects and the handler resolves.\<close>

lemma not_found_try:
  "ProcessImage_try sample_event not_found_world [ContextLogEvent sample_event] =
     (Rejected (LibraryError ''RestError: BlobNotFound''),
      [ContextLogEvent sample_event,
       ContextLogData (data sample_event),
       ContextLog ''Blob URL: https://acct.blob.core.windows.net/in/cat.png'',
       ContextLog ''Blob name: cat.png'',
       FromConnectionString (Some ''UseDevelopmentStorage=true''),
       GetContainerClient (Some ''in''),
       ContextLog ''Container client created'',
       GetBlockBlobClient (Some ''in'') ''cat.png'',
       Download (Some ''in'') ''cat.png''])"
  by (simp add: handler_defs step_simps sample_defs)

theorem ProcessImage_catches_witness:
  "fst (ProcessImage_try sample_event not_found_world [ContextLogEvent sample_event])
     = Rejected (LibraryError ''RestError: BlobNotFound'')
   \<and> fst (ProcessImage sample_event not_found_world []) = Resolved ()
   \<and> last (snd (ProcessImage sample_event not_found_world []))
       = ContextError ''Failed to process image: RestError: BlobNotFound''"
  using ProcessImage_catches_every_error
          [of sample_event not_found_world "LibraryError ''RestError: BlobNotFound''"]
  by (simp add: not_found_try)

section \<open>Locators without a slash\<close>

lemma reaches_service_client_ts:
  "optional_url event = Some u \<Longrightarrow> u \<noteq> [] \<Longrightarrow> CHR ''/'' \<notin> set u \<Longrightarrow>
   FromConnectionString (AzureWebJobsStorage w) \<in> set (snd (ProcessImage event w []))"
  by (simp add: handler_defs step_simps split_slash_no_slash
       split: promise.splits option.splits sum.splits prod.splits)

lemma reaches_download_ts:
  "optional_url event = Some u \<Longrightarrow> u \<noteq> [] \<Longrightarrow> CHR ''/'' \<notin> set u \<Longrightarrow>
   fromConnectionString w (AzureWebJobsStorage w) = Inr () \<Longrightarrow>
   getContainerClient w (BLOB_CONTAINER_NAME w) = Inr () \<Longrightarrow>
   getBlockBlobClient w (BLOB_CONTAINER_NAME w) u = Inr () \<Longrightarrow>
   Download (BLOB_CONTAINER_NAME w) u \<in> set (snd (ProcessImage event w []))"
  by (simp add: handler_defs step_simps split_slash_no_slash
       split: promise.splits option.splits sum.splits prod.splits)

lemma reaches_service_client_part_000:
  "optional_url event = Some u \<Longrightarrow> u \<noteq> [] \<Longrightarrow> CHR ''/'' \<notin> set u \<Longrightarrow>
   FromConnectionString (AzureWebJobsStorage w) \<in> set (snd (ProcessImage_part_000 event w []))"
  by (simp add: handler_defs step_simps split_slash_no_slash
       split: promise.splits option.splits sum.splits prod.splits)

lemma reaches_download_part_000:
  "optional_url event = Some u \<Longrightarrow> u \<noteq> [] \<Longrightarrow> CHR ''/'' \<notin> set u \<Longrightarrow>
   fromConnectionString w (AzureWebJobsStorage w) = Inr () \<Longrightarrow>
   \<not> falsy (BLOB_CONTAINER_NAME w) \<Longrightarrow>
   getContainerClient w (BLOB_CONTAINER_NAME w) = Inr () \<Longrightarrow>
   getBlockBlobClient w (BLOB_CONTAINER_NAME w) u = Inr () \<Longrightarrow>
   Download (BLOB_CONTAINER_NAME w) u \<in> set (snd (ProcessImage_part_000 event w []))"
  by (cases "BLOB_CONTAINER_NAME w"; simp add: handler_defs step_simps split_slash_no_slash
       split: promise.splits option.splits sum.splits prod.splits)

lemma reaches_service_client_part_001:
  "optional_url event = Some u \<Longrightarrow> u \<noteq> [] \<Longrightarrow> CHR ''/'' \<notin> set u \<Longrightarrow>
   FromConnectionString (AzureWebJobsStorage w) \<in> set (snd (ProcessImage_part_001 event w []))"
  by (simp add: handler_defs step_simps split_slash_no_slash
       split: promise.splits option.splits sum.splits prod.splits)

lemma reaches_download_part_001:
  "optional_url event = Some u \<Longrightarrow> u \<noteq> [] \<Longrightarrow> CHR ''/'' \<notin> set u \<Longrightarrow>
   fromConnectionString w (AzureWebJobsStorage w) = Inr () \<Longrightarrow>
   \<not> falsy (BLOB_CONTAINER_NAME w) \<Longrightarrow>
   getContainerClient w (BLOB_CONTAINER_NAME w) = Inr () \<Longrightarrow>
   getBlockBlobClient w (BLOB_CONTAINER_NAME w) u = Inr () \<Longrightarrow>
   Download (BLOB_CONTAINER_NAME w) u \<in> set (snd (ProcessImage_part_001 event w []))"
  by (cases "BLOB_CONTAINER_NAME w"; simp add: handler_defs step_simps split_slash_no_slash
       split: promise.splits option.splits sum.splits prod.splits)

text \<open>
  Claim C10. When \<^verbatim>\<open>data.url\<close> is a non-empty string \<open>u\<close> with no slash in it,
  \<^verbatim>\<open>split('/').pop()\<close> gives \<open>u\<close> itself. Neither input check throws: the run
  goes on to build the service client, and when the clients are built (and, in the
  two revisions that test it, the container name is set) it asks the source
  container for a blob named \<open>u\<close>. Nothing tests that the locator looks like a URL.
\<close>

theorem locator_without_slash_is_the_blob_name:
  assumes "optional_url event = Some u" and "u \<noteq> []" and "CHR ''/'' \<notin> set u"
  shows "pop (split_slash u) = Some u
       \<and> FromConnectionString (AzureWebJobsStorage w) \<in> set (snd (ProcessImage event w []))
       \<and> (fromConnectionString w (AzureWebJobsStorage w) = Inr ()
            \<and> getContainerClient w (BLOB_CONTAINER_NAME w) = Inr ()
            \<and> getBlockBlobClient w (BLOB_CONTAINER_NAME w) u = Inr ()
          \<longrightarrow> Download (BLOB_CONTAINER_NAME w) u \<in> set (snd (ProcessImage event w [])))
       \<and> FromConnectionString (AzureWebJobsStorage w)
            \<in> set (snd (ProcessImage_part_000 event w []))
       \<and> (fromConnectionString w (AzureWebJobsStorage w) = Inr ()
            \<and> \<not> falsy (BLOB_CONTAINER_NAME w)
            \<and> getContainerClient w (BLOB_CONTAINER_NAME w) = Inr ()
            \<and> getBlockBlobClient w (BLOB_CONTAINER_NAME w) u = Inr ()
          \<longrightarrow> Download (BLOB_CONTAINER_NAME w) u \<in> set (snd (ProcessImage_part_000 event w [])))
       \<and> FromConnectionString (AzureWebJobsStorage w)
            \<in> set (snd (ProcessImage_part_001 event w []))
       \<and> (fromConnectionString w (AzureWebJobsStorage w) = Inr ()
            \<and> \<not> falsy (BLOB_CONTAINER_NAME w)
            \<and> getContainerClient w (BLOB_CONTAINER_NAME w) = Inr ()
            \<and> getBlockBlobClient w (BLOB_CONTAINER_NAME w) u = Inr ()
          \<longrightarrow> Download (BLOB_CONTAINER_NAME w) u \<in> set (snd (ProcessImage_part_001 event w [])))"
proof -
  have "pop (split_slash u) = Some u"
    using assms(3) by (simp add: split_slash_no_slash)
  then show ?thesis
    using assms
      reaches_service_client_ts [of event u w] reaches_download_ts [of event u w]
      reaches_service_client_part_000 [of event u w] reaches_download_part_000 [of event u w]
      reaches_service_client_part_001 [of event u w] reaches_download_part_001 [of event u w]
    by blast
qed

text \<open>The locator \<^verbatim>\<open>cat.png\<close> is fetched as the blob \<^verbatim>\<open>cat.png\<close>.\<close>

theorem locator_without_slash_witness:
  "optional_url bare_event = Some ''cat.png'' \<and> ''cat.png'' \<noteq> [] \<and> CHR ''/'' \<notin> set ''cat.png''
   \<and> pop (split_slash ''cat.png'') = Some ''cat.png''
   \<and> Download (Some ''in'') ''cat.png'' \<in> set (snd (ProcessImage bare_event sample_world []))
   \<and> Download (Some ''in'') ''cat.png''
        \<in> set (snd (ProcessImage_part_001 bare_event sample_world []))"
  using locator_without_slash_is_the_blob_name [of bare_event "''cat.png''" sample_world]
  by (simp add: bare_event_def optional_url_def sample_world_def)

section \<open>Runs in which the collaborators answer\<close>

lemma final_segment_nonempty: "final_segment u \<noteq> [] \<Longrightarrow> u \<noteq> []"
  by (auto simp add: final_segment_def)

lemmas answer_defs = source_fetched_def image_prepared_def destination_ready_def

lemma part_000_network_calls:
  assumes "optional_url event = Some u" and "final_segment u \<noteq> []"
    and "\<not> falsy (BLOB_CONTAINER_NAME w)"
    and "source_fetched w (final_segment u) body"
    and "image_prepared w body buf img grey"
    and "getBuffer w grey ''image/jpeg'' = Resolved out"
    and "destination_ready w (''processed-'' @ final_segment u) succeeded"
  shows "filter is_network (snd (ProcessImage_part_000 event w [])) =
           [Download (BLOB_CONTAINER_NAME w) (final_segment u),
            CreateIfNotExists (PROCESSED_BLOB_CONTAINER_NAME w),
            Upload (PROCESSED_BLOB_CONTAINER_NAME w) (''processed-'' @ final_segment u)
              out (length out)]"
  using assms final_segment_nonempty [of u]
  by (cases "BLOB_CONTAINER_NAME w")
     (simp_all add: handler_defs step_simps answer_defs pop_split_slash
        split: promise.splits)

lemma part_001_network_calls:
  assumes "optional_url event = Some u" and "final_segment u \<noteq> []"
    and "\<not> falsy (BLOB_CONTAINER_NAME w)"
    and "source_fetched w (final_segment u) body"
    and "image_prepared w body buf img grey"
    and "getBuffer w grey ''image/jpeg'' = Resolved out"
    and "destination_ready w (''processed-'' @ final_segment u) succeeded"
  shows "filter is_network (snd (ProcessImage_part_001 event w [])) =
           [Download (BLOB_CONTAINER_NAME w) (final_segment u),
            CreateIfNotExists (PROCESSED_BLOB_CONTAINER_NAME w),
            Upload (PROCESSED_BLOB_CONTAINER_NAME w) (''processed-'' @ final_segment u)
              out (length out)]"
  using assms final_segment_nonempty [of u]
  by (cases "BLOB_CONTAINER_NAME w")
     (simp_all add: handler_defs step_simps answer_defs pop_split_slash
        split: promise.splits)





lemma ts_upload_if_delivered:
  assumes "optional_url event = Some u" and "final_segment u \<noteq> []"
    and "source_fetched w (final_segment u) body"
    and "image_prepared w body buf img grey"
    and "getBuffer_callback w grey ''image/png'' = Resolved (None, out)"
    and "getContainerClient w (PROCESSED_BLOB_CONTAINER_NAME w) = Inr ()"
    and "getBlockBlobClient w (PROCESSED_BLOB_CONTAINER_NAME w) (''processed-'' @ final_segment u) = Inr ()"
  shows "Upload (PROCESSED_BLOB_CONTAINER_NAME w) (''processed-'' @ final_segment u) out (length out)
           \<in> set (snd (ProcessImage event w []))"
  using assms final_segment_nonempty [of u]
  by (simp add: handler_defs step_simps answer_defs pop_split_slash split: promise.splits)

lemma ts_source_name:
  assumes "optional_url event = Some u" and "final_segment u \<noteq> []"
    and "fromConnectionString w (AzureWebJobsStorage w) = Inr ()"
    and "getContainerClient w (BLOB_CONTAINER_NAME w) = Inr ()"
  shows "GetBlockBlobClient (BLOB_CONTAINER_NAME w) (final_segment u) \<in> set (snd (ProcessImage event w []))"
  using assms final_segment_nonempty [of u]
  by (simp add: handler_defs step_simps pop_split_slash
        split: promise.splits option.splits sum.splits prod.splits)

section \<open>The name of the destination object\<close>

lemma in_filter_network: "filter is_network tr = xs \<Longrightarrow> x \<in> set xs \<Longrightarrow> x \<in> set tr"
  by auto

text \<open>
  Claim C7. For a notification that carries the locator \<open>u\<close>, the name of the
  destination object is the literal \<^verbatim>\<open>processed-\<close> followed by the final path segment
  of \<open>u\<close>, the characters after its last slash, unchanged. Every upload of every
  revision carries that name. In \<^verbatim>\<open>part_000\<close> and \<^verbatim>\<open>part_001\<close>, when the
  collaborators answer, the object is written under it. In
  \<^verbatim>\<open>src/functions/ProcessImage.ts\<close> the source blob is asked for under the final
  segment, and the object is written under the derived name in a run whose encoder
  hands a buffer to the callback.
\<close>

theorem processed_name_is_prefix_and_final_segment:
  assumes "optional_url event = Some u"
  shows "(Upload c n b l \<in> set (snd (ProcessImage event w [])) \<longrightarrow>
            n = ''processed-'' @ final_segment u)
       \<and> (Upload c n b l \<in> set (snd (ProcessImage_part_000 event w [])) \<longrightarrow>
            n = ''processed-'' @ final_segment u)
       \<and> (Upload c n b l \<in> set (snd (ProcessImage_part_001 event w [])) \<longrightarrow>
            n = ''processed-'' @ final_segment u)
       \<and> (final_segment u \<noteq> [] \<and> \<not> falsy (BLOB_CONTAINER_NAME w)
            \<and> source_fetched w (final_segment u) body
            \<and> image_prepared w body buf img grey
            \<and> getBuffer w grey ''image/jpeg'' = Resolved out
            \<and> destination_ready w (''processed-'' @ final_segment u) succeeded
          \<longrightarrow> Upload (PROCESSED_BLOB_CONTAINER_NAME w) (''processed-'' @ final_segment u)
                 out (length out) \<in> set (snd (ProcessImage_part_000 event w []))
              \<and> Upload (PROCESSED_BLOB_CONTAINER_NAME w) (''processed-'' @ final_segment u)
                 out (length out) \<in> set (snd (ProcessImage_part_001 event w [])))
       \<and> (final_segment u \<noteq> []
            \<and> fromConnectionString w (AzureWebJobsStorage w) = Inr ()
            \<and> getContainerClient w (BLOB_CONTAINER_NAME w) = Inr ()
          \<longrightarrow> GetBlockBlobClient (BLOB_CONTAINER_NAME w) (final_segment u)
                 \<in> set (snd (ProcessImage event w [])))
       \<and> (final_segment u \<noteq> []
            \<and> source_fetched w (final_segment u) body
            \<and> image_prepared w body buf img grey
            \<and> getBuffer_callback w grey ''image/png'' = Resolved (None, out)
            \<and> getContainerClient w (PROCESSED_BLOB_CONTAINER_NAME w) = Inr ()
            \<and> getBlockBlobClient w (PROCESSED_BLOB_CONTAINER_NAME w)
                 (''processed-'' @ final_segment u) = Inr ()
          \<longrightarrow> Upload (PROCESSED_BLOB_CONTAINER_NAME w) (''processed-'' @ final_segment u)
                 out (length out) \<in> set (snd (ProcessImage event w [])))"
proof (intro conjI impI)
  assume "Upload c n b l \<in> set (snd (ProcessImage event w []))"
  with assms show "n = ''processed-'' @ final_segment u"
    by (rule upload_name_ts[OF _ pop_split_slash])
next
  assume "Upload c n b l \<in> set (snd (ProcessImage_part_000 event w []))"
  with assms show "n = ''processed-'' @ final_segment u"
    by (rule upload_name_part_000[OF _ pop_split_slash])
next
  assume "Upload c n b l \<in> set (snd (ProcessImage_part_001 event w []))"
  with assms show "n = ''processed-'' @ final_segment u"
    by (rule upload_name_part_001[OF _ pop_split_slash])
next
  assume a: "final_segment u \<noteq> [] \<and> \<not> falsy (BLOB_CONTAINER_NAME w)
            \<and> source_fetched w (final_segment u) body
            \<and> image_prepared w body buf img grey
            \<and> getBuffer w grey ''image/jpeg'' = Resolved out
            \<and> destination_ready w (''processed-'' @ final_segment u) succeeded"
  then have f: "final_segment u \<noteq> []" "\<not> falsy (BLOB_CONTAINER_NAME w)"
      "source_fetched w (final_segment u) body" "image_prepared w body buf img grey"
      "getBuffer w grey ''image/jpeg'' = Resolved out"
      "destination_ready w (''processed-'' @ final_segment u) succeeded"
    by simp_all
  show "Upload (PROCESSED_BLOB_CONTAINER_NAME w) (''processed-'' @ final_segment u)
          out (length out) \<in> set (snd (ProcessImage_part_000 event w []))"
    by (rule in_filter_network [OF part_000_network_calls [OF assms f]]) simp
  show "Upload (PROCESSED_BLOB_CONTAINER_NAME w) (''processed-'' @ final_segment u)
          out (length out) \<in> set (snd (ProcessImage_part_001 event w []))"
    by (rule in_filter_network [OF part_001_network_calls [OF assms f]]) simp
next
  assume "final_segment u \<noteq> []
            \<and> fromConnectionString w (AzureWebJobsStorage w) = Inr ()
            \<and> getContainerClient w (BLOB_CONTAINER_NAME w) = Inr ()"
  then have g: "final_segment u \<noteq> []"
      "fromConnectionString w (AzureWebJobsStorage w) = Inr ()"
      "getContainerClient w (BLOB_CONTAINER_NAME w) = Inr ()"
    by simp_all
  show "GetBlockBlobClient (BLOB_CONTAINER_NAME w) (final_segment u)
          \<in> set (snd (ProcessImage event w []))"
    by (rule ts_source_name [OF assms g])
next
  assume "final_segment u \<noteq> []
            \<and> source_fetched w (final_segment u) body
            \<and> image_prepared w body buf img grey
            \<and> getBuffer_callback w grey ''image/png'' = Resolved (None, out)
            \<and> getContainerClient w (PROCESSED_BLOB_CONTAINER_NAME w) = Inr ()
            \<and> getBlockBlobClient w (PROCESSED_BLOB_CONTAINER_NAME w)
                 (''processed-'' @ final_segment u) = Inr ()"
  then have g: "final_segment u \<noteq> []"
      "source_fetched w (final_segment u) body"
      "image_prepared w body buf img grey"
      "getBuffer_callback w grey ''image/png'' = Resolved (None, out)"
      "getContainerClient w (PROCESSED_BLOB_CONTAINER_NAME w) = Inr ()"
      "getBlockBlobClient w (PROCESSED_BLOB_CONTAINER_NAME w)
         (''processed-'' @ final_segment u) = Inr ()"
    by simp_all
  show "Upload (PROCESSED_BLOB_CONTAINER_NAME w) (''processed-'' @ final_segment u)
          out (length out) \<in> set (snd (ProcessImage event w []))"
    by (rule ts_upload_if_delivered [OF assms g])
qed

text \<open>What the sample world answers, and the two sample locators.\<close>

lemma sample_world_answers:
  "\<not> falsy (BLOB_CONTAINER_NAME sample_world)"
  "BLOB_CONTAINER_NAME sample_world = Some ''in''"
  "PROCESSED_BLOB_CONTAINER_NAME sample_world = Some ''out''"
  "fromConnectionString sample_world (AzureWebJobsStorage sample_world) = Inr ()"
  "getContainerClient sample_world (BLOB_CONTAINER_NAME sample_world) = Inr ()"
  "getContainerClient sample_world (PROCESSED_BLOB_CONTAINER_NAME sample_world) = Inr ()"
  "source_fetched sample_world blobName
     (Some [OnData (IsBuffer [1, 2]), OnData (IsBuffer [3]), OnEnd])"
  "getContainerClient sample_world (Some ''in'') = Inr ()"
  "getContainerClient sample_world (Some ''out'') = Inr ()"
  "image_prepared sample_world
     (Some [OnData (IsBuffer [1, 2]), OnData (IsBuffer [3]), OnEnd]) [1, 2, 3] 0 (Suc 0)"
  "getBuffer sample_world (Suc 0) ''image/jpeg'' = Resolved [255, 216]"
  "getBuffer_callback sample_world img m = Pending"
  "destination_ready sample_world name True"
  by (simp_all add: source_fetched_def image_prepared_def destination_ready_def
        sample_world_def streamToBuffer_def)

lemma sample_locators:
  "optional_url sample_event = Some ''https://acct.blob.core.windows.net/in/cat.png''"
  "final_segment ''https://acct.blob.core.windows.net/in/cat.png'' = ''cat.png''"
  "optional_url nested_event = Some ''https://acct.blob.core.windows.net/in/pets/Dog.JPG''"
  "final_segment ''https://acct.blob.core.windows.net/in/pets/Dog.JPG'' = ''Dog.JPG''"
  by (simp_all add: sample_event_def nested_event_def optional_url_def final_segment_def)

text \<open>
  The source \<^verbatim>\<open>https://acct.blob.core.windows.net/in/cat.png\<close> is written as
  \<^verbatim>\<open>processed-cat.png\<close>, and \<^verbatim>\<open>.../in/pets/Dog.JPG\<close> as \<^verbatim>\<open>processed-Dog.JPG\<close>.
\<close>

theorem processed_name_witness:
  "optional_url sample_event = Some ''https://acct.blob.core.windows.net/in/cat.png''
   \<and> Upload (Some ''out'') ''processed-cat.png'' [255, 216] 2
        \<in> set (snd (ProcessImage_part_000 sample_event sample_world []))
   \<and> Upload (Some ''out'') ''processed-cat.png'' [255, 216] 2
        \<in> set (snd (ProcessImage_part_001 sample_event sample_world []))
   \<and> GetBlockBlobClient (Some ''in'') ''cat.png''
        \<in> set (snd (ProcessImage sample_event sample_world []))
   \<and> optional_url nested_event = Some ''https://acct.blob.core.windows.net/in/pets/Dog.JPG''
   \<and> Upload (Some ''out'') ''processed-Dog.JPG'' [255, 216] 2
        \<in> set (snd (ProcessImage_part_000 nested_event sample_world []))
   \<and> Upload (Some ''out'') ''processed-Dog.JPG'' [255, 216] 2
        \<in> set (snd (ProcessImage_part_001 nested_event sample_world []))
   \<and> GetBlockBlobClient (Some ''in'') ''Dog.JPG''
        \<in> set (snd (ProcessImage nested_event sample_world []))"
  using processed_name_is_prefix_and_final_segment
          [OF sample_locators(1), where w = sample_world
             and body = "Some [OnData (IsBuffer [1, 2]), OnData (IsBuffer [3]), OnEnd]"
             and buf = "[1, 2, 3]" and img = 0 and grey = 1 and out = "[255, 216]"
             and succeeded = True and c = None and n = "[]" and b = "[]" and l = 0]
        processed_name_is_prefix_and_final_segment
          [OF sample_locators(3), where w = sample_world
             and body = "Some [OnData (IsBuffer [1, 2]), OnData (IsBuffer [3]), OnEnd]"
             and buf = "[1, 2, 3]" and img = 0 and grey = 1 and out = "[255, 216]"
             and succeeded = True and c = None and n = "[]" and b = "[]" and l = 0]
  by (simp add: sample_world_answers sample_locators numeral_2_eq_2)

section \<open>What every upload of a run satisfies\<close>














section \<open>Configuration\<close>

lemma unset_container_part_000:
  assumes "falsy (BLOB_CONTAINER_NAME w)"
  shows "fst (ProcessImage_part_000 event w []) = Resolved ()"
    and "run_failed (snd (ProcessImage_part_000 event w []))"
    and "filter is_network (snd (ProcessImage_part_000 event w [])) = []"
  using assms
  by (cases "BLOB_CONTAINER_NAME w";
      simp add: handler_defs step_simps run_failed_def
        split: promise.splits option.splits sum.splits)+

lemma unset_container_part_001:
  assumes "falsy (BLOB_CONTAINER_NAME w)"
  shows "fst (ProcessImage_part_001 event w []) = Resolved ()"
    and "run_failed (snd (ProcessImage_part_001 event w []))"
    and "filter is_network (snd (ProcessImage_part_001 event w [])) = []"
  using assms
  by (cases "BLOB_CONTAINER_NAME w";
      simp add: handler_defs step_simps run_failed_def
        split: promise.splits option.splits sum.splits)+

lemma rejected_credential_part_000:
  assumes "fromConnectionString w (AzureWebJobsStorage w) = Inl e"
  shows "fst (ProcessImage_part_000 event w []) = Resolved ()"
    and "run_failed (snd (ProcessImage_part_000 event w []))"
    and "filter is_network (snd (ProcessImage_part_000 event w [])) = []"
  using assms
  by (simp add: handler_defs step_simps run_failed_def
        split: promise.splits option.splits sum.splits)+

lemma rejected_credential_part_001:
  assumes "fromConnectionString w (AzureWebJobsStorage w) = Inl e"
  shows "fst (ProcessImage_part_001 event w []) = Resolved ()"
    and "run_failed (snd (ProcessImage_part_001 event w []))"
    and "filter is_network (snd (ProcessImage_part_001 event w [])) = []"
  using assms
  by (simp add: handler_defs step_simps run_failed_def
        split: promise.splits option.splits sum.splits)+

lemma rejected_credential_ts:
  assumes "fromConnectionString w (AzureWebJobsStorage w) = Inl e"
  shows "fst (ProcessImage event w []) = Resolved ()"
    and "run_failed (snd (ProcessImage event w []))"
    and "filter is_network (snd (ProcessImage event w [])) = []"
  using assms
  by (simp add: handler_defs step_simps run_failed_def
        split: promise.splits option.splits sum.splits)+

text \<open>
  Claim C5, at a run of \<^verbatim>\<open>src/functions/ProcessImage.ts\<close> with the source container
  name unset. That file has no test of the name: it makes a container client for the
  undefined name and downloads from it, which is a network call, and the run fails
  only when the download rejects. At the same input \<^verbatim>\<open>part_000\<close> and
  \<^verbatim>\<open>part_001\<close> throw before any network call, as they do for every unset or empty
  name; and in all three revisions a credential that \<^verbatim>\<open>fromConnectionString\<close>
  rejects ends the run before any network call (the lemmas above).
\<close>

theorem ProcessImage_ts_downloads_with_unset_container:
  "falsy (BLOB_CONTAINER_NAME unnamed_container_world)
   \<and> ProcessImage sample_event unnamed_container_world [] =
       (Resolved (),
        [ContextLogEvent sample_event,
         ContextLogData (data sample_event),
         ContextLog ''Blob URL: https://acct.blob.core.windows.net/in/cat.png'',
         ContextLog ''Blob name: cat.png'',
         FromConnectionString (Some ''UseDevelopmentStorage=true''),
         GetContainerClient None,
         ContextLog ''Container client created'',
         GetBlockBlobClient None ''cat.png'',
         Download None ''cat.png'',
         ContextError ''Failed to process image: RestError: ContainerNotFound''])
   \<and> filter is_network (snd (ProcessImage sample_event unnamed_container_world [])) =
       [Download None ''cat.png'']
   \<and> filter is_network (snd (ProcessImage_part_000 sample_event unnamed_container_world [])) = []
   \<and> filter is_network (snd (ProcessImage_part_001 sample_event unnamed_container_world [])) = []"
  by (simp add: handler_defs step_simps sample_defs)

section \<open>The encoding of the published bytes\<close>



section \<open>Publishing\<close>



end
